theory Spec2Isabelle
  imports Main "HOL-Library.Product_Lexorder"
begin

section \<open>The triangulizor program (src/triangulizor.py) as HOL functions\<close>

text \<open>
  A Python 2 integer is a value of \<open>int\<close>; Python 2's \<open>/\<close> on integers is floor division,
  which is \<open>div\<close> on \<open>int\<close>, except that a zero divisor raises. Every exception the
  program can raise is a value of \<open>error\<close>, and a fallible function returns
  \<open>error + 'a\<close> with \<open>Inl\<close> for the exception.

  Python 2 has two integer types: \<open>int\<close>, the machine integers from \<open>-sys.maxint - 1\<close> to
  \<open>sys.maxint\<close>, and \<open>long\<close> for everything beyond. An integer is taken in the form in which
  \<open>int(x)\<close> and the literals produce it, an \<open>int\<close> whenever it fits and a \<open>long\<close> otherwise,
  so that \<open>isinstance(v, int)\<close> is the range test below. \<open>sys.maxint\<close> is that of a 64-bit
  build.
\<close>

datatype error =
    AssertionError
  | ZeroDivisionError
  | TypeError
  | IndexError
  | ValueError
  | UnboundLocalError

definition sys_maxint :: int where
  "sys_maxint = 2 ^ 63 - 1"

definition isinstance_int :: "int \<Rightarrow> bool" where
  "isinstance_int v = (- sys_maxint - 1 \<le> v \<and> v \<le> sys_maxint)"

type_synonym color = "int \<times> int \<times> int"
type_synonym point = "int \<times> int"

definition py_div :: "int \<Rightarrow> int \<Rightarrow> error + int" where
  "py_div a b = (if b = 0 then Inl ZeroDivisionError else Inr (a div b))"

text \<open>\<open>xrange(a, b)\<close>: the integers from \<open>a\<close> up to \<open>b - 1\<close>, empty when \<open>b \<le> a\<close>.\<close>

definition xrange :: "int \<Rightarrow> int \<Rightarrow> int list" where
  "xrange a b = [a..b - 1]"

text \<open>
  \<open>xrange(start, stop, step)\<close>: \<open>start, start + step, ...\<close> as long as the value is
  before \<open>stop\<close> in the direction of \<open>step\<close>; a zero step raises ValueError.
\<close>

definition xrange_step :: "int \<Rightarrow> int \<Rightarrow> int \<Rightarrow> error + int list" where
  "xrange_step start stop step =
     (if step = 0 then Inl ValueError
      else if 0 < step
        then Inr (map (\<lambda>k. start + k * step) [0..(stop - start - 1) div step])
        else Inr (map (\<lambda>k. start + k * step) [0..(start - stop - 1) div (- step)]))"

subsection \<open>Color math (lines 130-151)\<close>

text \<open>\<open>reduce(f, xs)\<close> without an initial value: TypeError on the empty sequence.\<close>

fun reduce :: "('a \<Rightarrow> 'a \<Rightarrow> 'a) \<Rightarrow> 'a list \<Rightarrow> error + 'a" where
  "reduce f [] = Inl TypeError"
| "reduce f (x # xs) = Inr (foldl f x xs)"

fun color_reducer :: "color \<Rightarrow> color \<Rightarrow> color" where
  "color_reducer (r1, g1, b1) (r2, g2, b2) = (r1 + r2, g1 + g2, b1 + b2)"

definition get_average_color :: "color list \<Rightarrow> error + color" where
  "get_average_color colors =
     (case reduce color_reducer colors of
        Inl e \<Rightarrow> Inl e
      | Inr (tr, tg, tb) \<Rightarrow>
          (let total = int (length colors) in
          (case py_div tr total of Inl e \<Rightarrow> Inl e | Inr r \<Rightarrow>
          (case py_div tg total of Inl e \<Rightarrow> Inl e | Inr g \<Rightarrow>
          (case py_div tb total of Inl e \<Rightarrow> Inl e | Inr b \<Rightarrow> Inr (r, g, b))))))"

fun get_color_dist :: "color \<Rightarrow> color \<Rightarrow> color" where
  "get_color_dist (r1, g1, b1) (r2, g2, b2) = (\<bar>r1 - r2\<bar>, \<bar>g1 - g2\<bar>, \<bar>b1 - b2\<bar>)"

text \<open>The format \<open>%d\<close>: decimal digits, with a minus sign for a negative number.\<close>

fun show_nat :: "nat \<Rightarrow> string" where
  "show_nat n =
     (if n < 10 then [''0123456789'' ! n]
      else show_nat (n div 10) @ [''0123456789'' ! (n mod 10)])"

declare show_nat.simps [simp del]

definition show_int :: "int \<Rightarrow> string" where
  "show_int i = (if i < 0 then ''-'' @ show_nat (nat (- i)) else show_nat (nat i))"

fun make_color :: "color \<Rightarrow> string" where
  "make_color (r, g, b) =
     ''rgb('' @ show_int r @ '', '' @ show_int g @ '', '' @ show_int b @ '')''"

subsection \<open>Images and the effects of a run\<close>

text \<open>
  An image of the imaging library: its size \<open>(w, h)\<close> and its pixels. Reading
  \<open>pix[x, y]\<close> outside \<open>0 \<le> x < w\<close>, \<open>0 \<le> y < h\<close> raises IndexError. The library's
  \<open>crop((left, upper, right, lower))\<close> returns a new image of size
  \<open>(right - left, lower - upper)\<close> that holds the source's pixels shifted by
  \<open>(left, upper)\<close>, and black where the box leaves the source; it never rescales.
\<close>

record image =
  im_size :: "int \<times> int"
  im_pixels :: "point \<Rightarrow> color"

definition in_image :: "image \<Rightarrow> point \<Rightarrow> bool" where
  "in_image im p =
     (0 \<le> fst p \<and> fst p < fst (im_size im) \<and> 0 \<le> snd p \<and> snd p < snd (im_size im))"

definition crop :: "int \<times> int \<times> int \<times> int \<Rightarrow> image \<Rightarrow> image" where
  "crop box im =
     (case box of (left, upper, right, lower) \<Rightarrow>
        \<lparr> im_size = (right - left, lower - upper),
          im_pixels = (\<lambda>(x, y). if in_image im (x + left, y + upper)
                                 then im_pixels im (x + left, y + upper) else (0, 0, 0)) \<rparr>)"

text \<open>
  The program mutates the image it draws on, and reads it back tile after tile. The state
  of a run is the image being processed together with the trace of what was done to it:
  every pixel read (\<open>pix[x, y]\<close>) and every polygon filled (\<open>draw.polygon\<close>), in order.
  The rasteriser of the drawing library is a parameter \<open>draw\<close>, as it is in the source.
\<close>

datatype event = PixelRead int int | PolygonFill "point list" string

record world =
  canvas :: image
  events :: "event list"

type_synonym 'a prog = "world \<Rightarrow> (error + 'a) \<times> world"
type_synonym drawer = "point list \<Rightarrow> string \<Rightarrow> image \<Rightarrow> image"

definition pret :: "'a \<Rightarrow> 'a prog" where
  "pret a = (\<lambda>s. (Inr a, s))"

definition praise :: "error \<Rightarrow> 'a prog" where
  "praise e = (\<lambda>s. (Inl e, s))"

definition pbind :: "'a prog \<Rightarrow> ('a \<Rightarrow> 'b prog) \<Rightarrow> 'b prog" where
  "pbind m f = (\<lambda>s. case m s of (Inl e, s') \<Rightarrow> (Inl e, s') | (Inr a, s') \<Rightarrow> f a s')"

definition plift :: "error + 'a \<Rightarrow> 'a prog" where
  "plift r = (case r of Inl e \<Rightarrow> praise e | Inr a \<Rightarrow> pret a)"

definition getpixel :: "int \<Rightarrow> int \<Rightarrow> color prog" where
  "getpixel x y = (\<lambda>s.
     let s' = s\<lparr>events := events s @ [PixelRead x y]\<rparr> in
     if in_image (canvas s) (x, y) then (Inr (im_pixels (canvas s) (x, y)), s')
     else (Inl IndexError, s'))"

text \<open>The inner loops \<open>for ...: region.append(pix[x, y])\<close>, over the coordinates in loop order.\<close>

fun read_pixels :: "point list \<Rightarrow> color list prog" where
  "read_pixels [] = pret []"
| "read_pixels (p # ps) =
     pbind (getpixel (fst p) (snd p)) (\<lambda>c.
     pbind (read_pixels ps) (\<lambda>cs. pret (c # cs)))"

subsection \<open>Region sampler: \<open>triangle_colors\<close> (lines 69-100)\<close>

text \<open>The coordinates each pair of nested loops visits, in the order it visits them.\<close>

definition north_coords :: "int \<Rightarrow> int \<Rightarrow> int \<Rightarrow> point list" where
  "north_coords tile_x tile_y tile_size =
     (let quad_size = tile_size div 2 in
      concat (map (\<lambda>y. let x_off = y - tile_y in
                       map (\<lambda>x. (x, y)) (xrange (tile_x + x_off) (tile_x + tile_size - x_off)))
                  (xrange tile_y (tile_y + quad_size))))"

definition south_coords :: "int \<Rightarrow> int \<Rightarrow> int \<Rightarrow> point list" where
  "south_coords tile_x tile_y tile_size =
     (let quad_size = tile_size div 2 in
      concat (map (\<lambda>y. let x_off = tile_y + tile_size - y in
                       map (\<lambda>x. (x, y)) (xrange (tile_x + x_off) (tile_x + tile_size - x_off)))
                  (xrange (tile_y + quad_size) (tile_y + tile_size))))"

definition east_coords :: "int \<Rightarrow> int \<Rightarrow> int \<Rightarrow> point list" where
  "east_coords tile_x tile_y tile_size =
     (let quad_size = tile_size div 2 in
      concat (map (\<lambda>x. let y_off = x - tile_x in
                       map (\<lambda>y. (x, y)) (xrange (tile_y + y_off) (tile_y + tile_size - y_off)))
                  (xrange tile_x (tile_x + quad_size))))"

definition west_coords :: "int \<Rightarrow> int \<Rightarrow> int \<Rightarrow> point list" where
  "west_coords tile_x tile_y tile_size =
     (let quad_size = tile_size div 2 in
      concat (map (\<lambda>x. let y_off = tile_x + tile_size - x in
                       map (\<lambda>y. (x, y)) (xrange (tile_y + y_off) (tile_y + tile_size - y_off)))
                  (xrange (tile_x + quad_size) (tile_x + tile_size))))"

definition triangle_colors :: "int \<Rightarrow> int \<Rightarrow> int \<Rightarrow> (color \<times> color \<times> color \<times> color) prog" where
  "triangle_colors tile_x tile_y tile_size =
     pbind (read_pixels (north_coords tile_x tile_y tile_size)) (\<lambda>north.
     pbind (read_pixels (south_coords tile_x tile_y tile_size)) (\<lambda>south.
     pbind (read_pixels (east_coords tile_x tile_y tile_size)) (\<lambda>east.
     pbind (read_pixels (west_coords tile_x tile_y tile_size)) (\<lambda>west.
     pbind (plift (get_average_color north)) (\<lambda>n.
     pbind (plift (get_average_color east)) (\<lambda>e.
     pbind (plift (get_average_color south)) (\<lambda>s.
     pbind (plift (get_average_color west)) (\<lambda>w.
     pret (n, e, s, w)))))))))"

subsection \<open>Tile renderer: \<open>draw_triangles\<close> (lines 102-128)\<close>

definition draw_triangle :: "point \<Rightarrow> point \<Rightarrow> point \<Rightarrow> color \<Rightarrow> drawer \<Rightarrow> unit prog" where
  "draw_triangle a b c color draw = (\<lambda>s.
     (Inr (), s\<lparr>canvas := draw [a, b, c] (make_color color) (canvas s),
               events := events s @ [PolygonFill [a, b, c] (make_color color)]\<rparr>))"

definition draw_triangles ::
  "int \<Rightarrow> int \<Rightarrow> int \<Rightarrow> string \<Rightarrow> color \<Rightarrow> color \<Rightarrow> drawer \<Rightarrow> unit prog" where
  "draw_triangles tile_x tile_y tile_size split top_color bottom_color draw =
     (if \<not> (split = ''right'' \<or> split = ''left'') then praise AssertionError
      else
        let nw = (tile_x, tile_y);
            ne = (tile_x + tile_size - 1, tile_y);
            se = (tile_x + tile_size - 1, tile_y + tile_size);
            sw = (tile_x, tile_y + tile_size)
        in if split = ''left''
           then pbind (draw_triangle nw ne se top_color draw)
                      (\<lambda>_. draw_triangle nw sw se bottom_color draw)
           else pbind (draw_triangle sw nw ne top_color draw)
                      (\<lambda>_. draw_triangle sw se ne bottom_color draw))"

subsection \<open>Split selector and \<open>process_tile\<close> (lines 34-67)\<close>

text \<open>
  Lines 44-56 of \<open>process_tile\<close>: the four distances, the first element of the sorted list
  (tuples are compared lexicographically, as the product order of \<open>Product_Lexorder\<close>),
  and the chain of membership tests. When neither test holds the source leaves \<open>split\<close>
  unbound, and its next use raises.
\<close>

definition closest_dist :: "color \<Rightarrow> color \<Rightarrow> color \<Rightarrow> color \<Rightarrow> color" where
  "closest_dist n e s w =
     (let d_ne = get_color_dist n e;
          d_nw = get_color_dist n w;
          d_se = get_color_dist s e;
          d_sw = get_color_dist s w
      in sort [d_ne, d_nw, d_se, d_sw] ! 0)"

definition choose_split :: "color \<Rightarrow> color \<Rightarrow> color \<Rightarrow> color \<Rightarrow> error + string" where
  "choose_split n e s w =
     (let d_ne = get_color_dist n e;
          d_nw = get_color_dist n w;
          d_se = get_color_dist s e;
          d_sw = get_color_dist s w;
          closest = closest_dist n e s w
      in if closest \<in> set [d_ne, d_sw] then Inr ''right''
         else if closest \<in> set [d_nw, d_se] then Inr ''left''
         else Inl UnboundLocalError)"

definition process_tile :: "int \<Rightarrow> int \<Rightarrow> int \<Rightarrow> drawer \<Rightarrow> unit prog" where
  "process_tile tile_x tile_y tile_size draw =
     pbind (triangle_colors tile_x tile_y tile_size) (\<lambda>(n, e, s, w).
     pbind (plift (choose_split n e s w)) (\<lambda>split.
     pbind (if split = ''right''
            then pbind (plift (get_average_color [n, e])) (\<lambda>top_color.
                 pbind (plift (get_average_color [s, w])) (\<lambda>bottom_color.
                 pret (top_color, bottom_color)))
            else pbind (plift (get_average_color [n, w])) (\<lambda>top_color.
                 pbind (plift (get_average_color [s, e])) (\<lambda>bottom_color.
                 pret (top_color, bottom_color))))
       (\<lambda>(top_color, bottom_color).
          draw_triangles tile_x tile_y tile_size split top_color bottom_color draw)))"

subsection \<open>Image driver: \<open>prep_image\<close>, \<open>iter_tiles\<close>, \<open>triangulize\<close>\<close>

definition prep_image :: "image \<Rightarrow> int \<Rightarrow> error + image" where
  "prep_image im tile_size =
     (case im_size im of (w, h) \<Rightarrow>
       (case py_div w tile_size of Inl e \<Rightarrow> Inl e | Inr x_tiles \<Rightarrow>
       (case py_div h tile_size of Inl e \<Rightarrow> Inl e | Inr y_tiles \<Rightarrow>
          (let new_w = x_tiles * tile_size;
               new_h = y_tiles * tile_size
           in if new_w = w \<and> new_h = h then Inr im
              else Inr (crop (0, 0, new_w, new_h) im)))))"

definition iter_tiles :: "image \<Rightarrow> int \<Rightarrow> error + point list" where
  "iter_tiles im tile_size =
     (case im_size im of (w, h) \<Rightarrow>
       (case xrange_step 0 h tile_size of Inl e \<Rightarrow> Inl e | Inr ys \<Rightarrow>
       (case xrange_step 0 w tile_size of Inl e \<Rightarrow> Inl e | Inr xs \<Rightarrow>
          Inr (concat (map (\<lambda>y. map (\<lambda>x. (x, y)) xs) ys)))))"

text \<open>The loop of \<open>triangulize\<close> over the tile origins (lines 30-31).\<close>

fun process_tiles :: "point list \<Rightarrow> int \<Rightarrow> drawer \<Rightarrow> unit prog" where
  "process_tiles [] tile_size draw = pret ()"
| "process_tiles (p # ps) tile_size draw =
     pbind (process_tile (fst p) (snd p) tile_size draw)
           (\<lambda>_. process_tiles ps tile_size draw)"

text \<open>
  \<open>triangulize\<close> returns the processed image or the exception raised, together with the
  trace of the pixel reads and polygon fills it performed. The assertion of line 21,
  \<open>isinstance(tile_size, int) and tile_size % 2 == 0\<close>, is the only validation of
  \<open>tile_size\<close>.
\<close>

definition triangulize :: "drawer \<Rightarrow> image \<Rightarrow> int \<Rightarrow> (error + image) \<times> event list" where
  "triangulize draw im tile_size =
     (if \<not> (isinstance_int tile_size \<and> tile_size mod 2 = 0) then (Inl AssertionError, [])
      else case prep_image im tile_size of
             Inl e \<Rightarrow> (Inl e, [])
           | Inr im' \<Rightarrow>
               (case iter_tiles im' tile_size of
                  Inl e \<Rightarrow> (Inl e, [])
                | Inr tiles \<Rightarrow>
                    (case process_tiles tiles tile_size draw \<lparr>canvas = im', events = []\<rparr> of
                       (Inl e, s) \<Rightarrow> (Inl e, events s)
                     | (Inr _, s) \<Rightarrow> (Inr (canvas s), events s))))"

subsection \<open>Vocabulary of the specification\<close>

text \<open>
  The pixels of the tile with origin \<open>(tile_x, tile_y)\<close>, and the pixels \<open>(tile_x + d, tile_y + d)\<close>
  with \<open>lo \<le> d < hi\<close> of its main diagonal.
\<close>

definition tile_pixels :: "int \<Rightarrow> int \<Rightarrow> int \<Rightarrow> point set" where
  "tile_pixels tile_x tile_y tile_size =
     {(x, y). tile_x \<le> x \<and> x < tile_x + tile_size \<and> tile_y \<le> y \<and> y < tile_y + tile_size}"

definition diagonal :: "int \<Rightarrow> int \<Rightarrow> int \<Rightarrow> int \<Rightarrow> point set" where
  "diagonal tile_x tile_y lo hi =
     {(x, y). x - tile_x = y - tile_y \<and> lo \<le> x - tile_x \<and> x - tile_x < hi}"

text \<open>
  The split selector as the specification words it (section 4.3): among the candidates in
  evaluation order (N,E), (N,W), (S,E), (S,W), the first one whose distance is the
  lexicographic minimum decides, (N,E) and (S,W) for Right, (N,W) and (S,E) for Left.
  It is compared below with \<open>choose_split\<close>, which is the source's.
\<close>

definition spec_split :: "color \<Rightarrow> color \<Rightarrow> color \<Rightarrow> color \<Rightarrow> string" where
  "spec_split n e s w =
     (let candidates = [(get_color_dist n e, ''right''), (get_color_dist n w, ''left''),
                        (get_color_dist s e, ''left''), (get_color_dist s w, ''right'')];
          least = Min (set (map fst candidates))
      in snd (hd (filter (\<lambda>c. fst c = least) candidates)))"

subsection \<open>Concrete images\<close>

definition solid_image :: "int \<Rightarrow> int \<Rightarrow> color \<Rightarrow> image" where
  "solid_image w h c = \<lparr>im_size = (w, h), im_pixels = (\<lambda>p. c)\<rparr>"

definition gradient_image :: "int \<Rightarrow> int \<Rightarrow> image" where
  "gradient_image w h =
     \<lparr>im_size = (w, h), im_pixels = (\<lambda>(x, y). (x mod 256, y mod 256, 0))\<rparr>"

section \<open>Properties\<close>

subsection \<open>Ranges\<close>

lemma length_xrange: "int (length (xrange a b)) = max 0 (b - a)"
  by (simp add: xrange_def)

lemma set_xrange: "set (xrange a b) = {a..<b}"
  by (auto simp: xrange_def)

subsection \<open>Averaging\<close>

text \<open>
  Claim C8. For every color \<open>c\<close>, the average of the one-element sequence \<open>[c]\<close> is \<open>c\<close>
  itself, and the average of two equal colors \<open>[c, c]\<close> is \<open>c\<close>; neither call raises.
\<close>

theorem average_single_and_equal_pair:
  "get_average_color [c] = Inr c \<and> get_average_color [c, c] = Inr c"
  by (cases c) (simp add: get_average_color_def py_div_def)

subsection \<open>Sizes of the four sampled regions\<close>

lemma length_rows:
  "int (length (concat (map (\<lambda>y. map (g y) (xrange (lo y) (hi y))) ys)))
     = sum_list (map (\<lambda>y. max 0 (hi y - lo y)) ys)"
  by (induction ys) (simp_all add: length_xrange)

lemma sum_list_linear:
  "sum_list (map (\<lambda>y. c + k * (y - a)) [a..a + int n - 1])
     = int n * c + k * (int n * (int n - 1) div 2)"
proof (induction n)
  case 0
  then show ?case by simp
next
  case (Suc n)
  have last_row: "[a..a + int (Suc n) - 1] = [a..a + int n - 1] @ [a + int n]"
    using upto_rec2 [of a "a + int n"] by simp
  have tri: "int (Suc n) * (int (Suc n) - 1) div 2 = int n * (int n - 1) div 2 + int n"
  proof -
    have "int (Suc n) * (int (Suc n) - 1) = int n * (int n - 1) + 2 * int n"
      by (simp add: algebra_simps)
    then show ?thesis by simp
  qed
  show ?case
    unfolding last_row tri using Suc.IH by (simp add: algebra_simps)
qed

lemma sum_list_rows:
  assumes "0 \<le> n" and "\<And>y. a \<le> y \<Longrightarrow> y < a + n \<Longrightarrow> f y = c + k * (y - a)"
  shows "sum_list (map f (xrange a (a + n))) = n * c + k * (n * (n - 1) div 2)"
proof -
  have eq1: "map f (xrange a (a + n)) = map (\<lambda>y. c + k * (y - a)) (xrange a (a + n))"
    by (rule map_cong) (auto simp: set_xrange assms(2))
  have eq2: "xrange a (a + n) = [a..a + int (nat n) - 1]"
    using assms(1) by (simp add: xrange_def)
  have "sum_list (map f (xrange a (a + n)))
          = sum_list (map (\<lambda>y. c + k * (y - a)) (xrange a (a + n)))"
    by (simp only: eq1)
  also have "\<dots> = sum_list (map (\<lambda>y. c + k * (y - a)) [a..a + int (nat n) - 1])"
    by (simp only: eq2)
  also have "\<dots> = int (nat n) * c + k * (int (nat n) * (int (nat n) - 1) div 2)"
    by (rule sum_list_linear)
  also have "\<dots> = n * c + k * (n * (n - 1) div 2)"
    using assms(1) by simp
  finally show ?thesis .
qed

text \<open>With \<open>tile_size = 2 * q\<close>: North and East hold \<open>q\<^sup>2 + q\<close> pixels, South and West \<open>q\<^sup>2 - q\<close>.\<close>

lemma length_north:
  assumes "0 \<le> q"
  shows "int (length (north_coords tx ty (2 * q))) = q * q + q"
proof -
  have "int (length (north_coords tx ty (2 * q)))
          = sum_list (map (\<lambda>y. max 0 (2 * q - 2 * (y - ty))) (xrange ty (ty + q)))"
    unfolding north_coords_def Let_def
    by (simp add: length_rows algebra_simps)
  also have "\<dots> = q * (2 * q) + (- 2) * (q * (q - 1) div 2)"
    by (rule sum_list_rows [OF assms]) auto
  also have "\<dots> = q * q + q"
    by (simp add: algebra_simps)
  finally show ?thesis .
qed

lemma length_east:
  assumes "0 \<le> q"
  shows "int (length (east_coords tx ty (2 * q))) = q * q + q"
proof -
  have "int (length (east_coords tx ty (2 * q)))
          = sum_list (map (\<lambda>x. max 0 (2 * q - 2 * (x - tx))) (xrange tx (tx + q)))"
    unfolding east_coords_def Let_def
    by (simp add: length_rows algebra_simps)
  also have "\<dots> = q * (2 * q) + (- 2) * (q * (q - 1) div 2)"
    by (rule sum_list_rows [OF assms]) auto
  also have "\<dots> = q * q + q"
    by (simp add: algebra_simps)
  finally show ?thesis .
qed

lemma length_south:
  assumes "0 \<le> q"
  shows "int (length (south_coords tx ty (2 * q))) = q * q - q"
proof -
  have "int (length (south_coords tx ty (2 * q)))
          = sum_list (map (\<lambda>y. max 0 (2 * (y - ty) - 2 * q)) (xrange (ty + q) (ty + q + q)))"
    unfolding south_coords_def Let_def
    by (simp add: length_rows algebra_simps)
  also have "\<dots> = q * 0 + 2 * (q * (q - 1) div 2)"
    by (rule sum_list_rows [OF assms]) auto
  also have "\<dots> = q * q - q"
    by (simp add: algebra_simps)
  finally show ?thesis .
qed

lemma length_west:
  assumes "0 \<le> q"
  shows "int (length (west_coords tx ty (2 * q))) = q * q - q"
proof -
  have "int (length (west_coords tx ty (2 * q)))
          = sum_list (map (\<lambda>x. max 0 (2 * (x - tx) - 2 * q)) (xrange (tx + q) (tx + q + q)))"
    unfolding west_coords_def Let_def
    by (simp add: length_rows algebra_simps)
  also have "\<dots> = q * 0 + 2 * (q * (q - 1) div 2)"
    by (rule sum_list_rows [OF assms]) auto
  also have "\<dots> = q * q - q"
    by (simp add: algebra_simps)
  finally show ?thesis .
qed

text \<open>
  Claim C5. For every even \<open>tile_size \<ge> 2\<close> and every tile origin, the numbers of pixels
  sampled for North, East, South and West add up to \<open>tile_size\<^sup>2\<close>.
\<close>

theorem region_sizes_sum:
  assumes "even tile_size" and "2 \<le> tile_size"
  shows "int (length (north_coords tile_x tile_y tile_size))
           + int (length (east_coords tile_x tile_y tile_size))
           + int (length (south_coords tile_x tile_y tile_size))
           + int (length (west_coords tile_x tile_y tile_size)) = tile_size * tile_size"
proof -
  from assms(1) obtain q where q: "tile_size = 2 * q" by (elim evenE)
  with assms(2) have "0 \<le> q" by simp
  then show ?thesis
    using length_north [of q tile_x tile_y] length_east [of q tile_x tile_y]
      length_south [of q tile_x tile_y] length_west [of q tile_x tile_y]
    unfolding q by (simp add: algebra_simps)
qed

theorem region_sizes_sum_witness:
  "even (4::int) \<and> (2::int) \<le> 4
     \<and> int (length (north_coords 0 0 4)) + int (length (east_coords 0 0 4))
       + int (length (south_coords 0 0 4)) + int (length (west_coords 0 0 4)) = 4 * 4
     \<and> length (north_coords 0 0 4) = 6 \<and> length (south_coords 0 0 4) = 2"
  using region_sizes_sum [of 4 0 0]
  by (simp add: north_coords_def south_coords_def xrange_def upto.simps)

lemma regions_nonempty:
  assumes "even tile_size" and "4 \<le> tile_size"
  shows "north_coords tile_x tile_y tile_size \<noteq> []"
    and "east_coords tile_x tile_y tile_size \<noteq> []"
    and "south_coords tile_x tile_y tile_size \<noteq> []"
    and "west_coords tile_x tile_y tile_size \<noteq> []"
proof -
  from assms(1) obtain q where q: "tile_size = 2 * q" by (elim evenE)
  with assms(2) have q2: "2 \<le> q" by simp
  then have "0 < q * q - q"
    by (simp add: algebra_simps)
  moreover have "0 < q * q + q"
    using q2 by (simp add: add_pos_nonneg)
  ultimately show "north_coords tile_x tile_y tile_size \<noteq> []"
    and "east_coords tile_x tile_y tile_size \<noteq> []"
    and "south_coords tile_x tile_y tile_size \<noteq> []"
    and "west_coords tile_x tile_y tile_size \<noteq> []"
    using length_north [of q tile_x tile_y] length_east [of q tile_x tile_y]
      length_south [of q tile_x tile_y] length_west [of q tile_x tile_y] q2
    unfolding q by auto
qed

text \<open>
  Claim C1 says that for every even \<open>tile_size \<ge> 2\<close> all four sampled regions are
  non-empty, so that the average is never taken of an empty sequence. At \<open>tile_size = 2\<close>
  the South and West loops visit no pixel (their offset is 1, so the inner range is
  empty), and \<open>triangulize\<close> on a solid red 2 by 2 image raises TypeError from the average of
  the empty South region, after the four reads of North and East and before any polygon is
  drawn. From \<open>tile_size = 4\<close> on every region is non-empty (\<open>regions_nonempty\<close>).
\<close>

theorem tile_size_two_averages_empty_region:
  "south_coords 0 0 2 = [] \<and> west_coords 0 0 2 = []
   \<and> get_average_color [] = Inl TypeError
   \<and> triangulize draw (solid_image 2 2 (255, 0, 0)) 2
       = (Inl TypeError, [PixelRead 0 0, PixelRead 1 0, PixelRead 0 0, PixelRead 0 1])"
  by (simp add: triangulize_def solid_image_def prep_image_def py_div_def iter_tiles_def
      xrange_step_def process_tile_def triangle_colors_def north_coords_def south_coords_def
      east_coords_def west_coords_def xrange_def upto.simps pbind_def pret_def praise_def plift_def
      getpixel_def in_image_def get_average_color_def Let_def isinstance_int_def sys_maxint_def)

subsection \<open>The pixels of the four sampled regions\<close>

lemma set_north:
  "set (north_coords tx ty ts) =
     {(x, y). ty \<le> y \<and> y < ty + ts div 2 \<and> tx + (y - ty) \<le> x \<and> x < tx + ts - (y - ty)}"
  by (auto simp: north_coords_def Let_def set_xrange)

lemma set_south:
  "set (south_coords tx ty ts) =
     {(x, y). ty + ts div 2 \<le> y \<and> y < ty + ts
        \<and> tx + (ty + ts - y) \<le> x \<and> x < tx + ts - (ty + ts - y)}"
  by (auto simp: south_coords_def Let_def set_xrange)

lemma set_east:
  "set (east_coords tx ty ts) =
     {(x, y). tx \<le> x \<and> x < tx + ts div 2 \<and> ty + (x - tx) \<le> y \<and> y < ty + ts - (x - tx)}"
  by (auto simp: east_coords_def Let_def set_xrange)

lemma set_west:
  "set (west_coords tx ty ts) =
     {(x, y). tx + ts div 2 \<le> x \<and> x < tx + ts
        \<and> ty + (tx + ts - x) \<le> y \<and> y < ty + ts - (tx + ts - x)}"
  by (auto simp: west_coords_def Let_def set_xrange)

lemma regions_cover:
  assumes "even ts"
  shows "set (north_coords tx ty ts) \<union> set (east_coords tx ty ts)
       \<union> set (south_coords tx ty ts) \<union> set (west_coords tx ty ts)
       = tile_pixels tx ty ts - diagonal tx ty (ts div 2) ts"
proof -
  from assms obtain q where q: "ts = 2 * q" by (elim evenE)
  show ?thesis
    unfolding set_north set_south set_east set_west tile_pixels_def diagonal_def q
    by auto
qed

lemma north_east_overlap:
  assumes "even ts"
  shows "set (north_coords tx ty ts) \<inter> set (east_coords tx ty ts) = diagonal tx ty 0 (ts div 2)"
proof -
  from assms obtain q where q: "ts = 2 * q" by (elim evenE)
  show ?thesis
    unfolding set_north set_east diagonal_def q
    by auto
qed

lemma regions_disjoint:
  shows "set (north_coords tx ty ts) \<inter> set (south_coords tx ty ts) = {}"
    and "set (north_coords tx ty ts) \<inter> set (west_coords tx ty ts) = {}"
    and "set (east_coords tx ty ts) \<inter> set (south_coords tx ty ts) = {}"
    and "set (east_coords tx ty ts) \<inter> set (west_coords tx ty ts) = {}"
    and "set (south_coords tx ty ts) \<inter> set (west_coords tx ty ts) = {}"
  unfolding set_north set_south set_east set_west by auto

lemma distinct_rows:
  assumes "distinct ys"
  shows "distinct (concat (map (\<lambda>y. map (\<lambda>x. (x, y)) (xrange (lo y) (hi y))) ys))"
  using assms
  by (induction ys) (auto simp: distinct_map inj_on_def xrange_def)

lemma distinct_cols:
  assumes "distinct xs"
  shows "distinct (concat (map (\<lambda>x. map (\<lambda>y. (x, y)) (xrange (lo x) (hi x))) xs))"
  using assms
  by (induction xs) (auto simp: distinct_map inj_on_def xrange_def)

lemma distinct_regions:
  shows "distinct (north_coords tx ty ts)" and "distinct (south_coords tx ty ts)"
    and "distinct (east_coords tx ty ts)" and "distinct (west_coords tx ty ts)"
  unfolding north_coords_def south_coords_def east_coords_def west_coords_def Let_def
  by (rule distinct_rows distinct_cols, simp add: xrange_def)+

text \<open>
  Claim C2 says that the four regions partition the tile. They do not: in the tile of size
  4 at the origin the pixels \<open>(0, 0)\<close> and \<open>(1, 1)\<close> are sampled by both North and East, and
  the pixels \<open>(2, 2)\<close> and \<open>(3, 3)\<close> of the tile are sampled by no region.
\<close>

theorem regions_partition_counterexample:
  "(0, 0) \<in> set (north_coords 0 0 4) \<inter> set (east_coords 0 0 4)
   \<and> (1, 1) \<in> set (north_coords 0 0 4) \<inter> set (east_coords 0 0 4)
   \<and> (3, 3) \<in> tile_pixels 0 0 4
   \<and> (3, 3) \<notin> set (north_coords 0 0 4) \<union> set (east_coords 0 0 4)
               \<union> set (south_coords 0 0 4) \<union> set (west_coords 0 0 4)
   \<and> (2, 2) \<in> tile_pixels 0 0 4
   \<and> (2, 2) \<notin> set (north_coords 0 0 4) \<union> set (east_coords 0 0 4)
               \<union> set (south_coords 0 0 4) \<union> set (west_coords 0 0 4)"
  by (simp add: set_north set_south set_east set_west tile_pixels_def)

text \<open>
  Claim C2, amended. For every even \<open>tile_size \<ge> 2\<close> and every tile, the four sampled
  regions cover every pixel of the tile except the pixels \<open>(tile_x + d, tile_y + d)\<close>,
  \<open>tile_size / 2 \<le> d < tile_size\<close>, of the lower half of the main diagonal, which no region
  samples; North and East share exactly the pixels \<open>(tile_x + d, tile_y + d)\<close>,
  \<open>0 \<le> d < tile_size / 2\<close>, of the upper half of that diagonal; every other pair of
  regions is disjoint; and no region samples a pixel twice.
\<close>

theorem regions_cover_tile_but_diagonal:
  assumes "even tile_size" and "2 \<le> tile_size"
  shows "set (north_coords tile_x tile_y tile_size) \<union> set (east_coords tile_x tile_y tile_size)
           \<union> set (south_coords tile_x tile_y tile_size) \<union> set (west_coords tile_x tile_y tile_size)
         = tile_pixels tile_x tile_y tile_size
             - diagonal tile_x tile_y (tile_size div 2) tile_size
     \<and> set (north_coords tile_x tile_y tile_size) \<inter> set (east_coords tile_x tile_y tile_size)
         = diagonal tile_x tile_y 0 (tile_size div 2)
     \<and> set (north_coords tile_x tile_y tile_size) \<inter> set (south_coords tile_x tile_y tile_size) = {}
     \<and> set (north_coords tile_x tile_y tile_size) \<inter> set (west_coords tile_x tile_y tile_size) = {}
     \<and> set (east_coords tile_x tile_y tile_size) \<inter> set (south_coords tile_x tile_y tile_size) = {}
     \<and> set (east_coords tile_x tile_y tile_size) \<inter> set (west_coords tile_x tile_y tile_size) = {}
     \<and> set (south_coords tile_x tile_y tile_size) \<inter> set (west_coords tile_x tile_y tile_size) = {}
     \<and> distinct (north_coords tile_x tile_y tile_size)
     \<and> distinct (east_coords tile_x tile_y tile_size)
     \<and> distinct (south_coords tile_x tile_y tile_size)
     \<and> distinct (west_coords tile_x tile_y tile_size)"
  using assms(1)
  by (intro conjI) (simp_all only: regions_cover north_east_overlap regions_disjoint distinct_regions)

theorem regions_cover_tile_but_diagonal_witness:
  "even (6::int) \<and> (2::int) \<le> 6
   \<and> set (north_coords 6 12 6) \<union> set (east_coords 6 12 6)
       \<union> set (south_coords 6 12 6) \<union> set (west_coords 6 12 6)
     = tile_pixels 6 12 6 - diagonal 6 12 3 6
   \<and> set (north_coords 6 12 6) \<inter> set (east_coords 6 12 6) = diagonal 6 12 0 3
   \<and> (9, 15) \<in> diagonal 6 12 3 6 \<and> (7, 13) \<in> diagonal 6 12 0 3"
  using regions_cover_tile_but_diagonal [of 6 6 12]
  by (simp add: diagonal_def)

subsection \<open>Split selector\<close>

text \<open>The order on colors is the lexicographic one, as Python compares tuples.\<close>

lemma color_le_lexicographic:
  "((r1, g1, b1) \<le> ((r2, g2, b2) :: color))
     = (r1 < r2 \<or> (r1 = r2 \<and> (g1 < g2 \<or> (g1 = g2 \<and> b1 \<le> b2))))"
  by auto

lemma sort4_head:
  fixes a :: "'a::linorder"
  shows "sort [a, b, c, d] ! 0 = min a (min b (min c d))"
  by (simp add: min_def insort_key.simps)

lemma closest_is_min:
  "closest_dist n e s w =
     Min {get_color_dist n e, get_color_dist n w, get_color_dist s e, get_color_dist s w}"
  unfolding closest_dist_def Let_def sort4_head by simp

lemma choose_split_cases:
  "choose_split n e s w = Inr ''right'' \<or> choose_split n e s w = Inr ''left''"
  by (simp add: choose_split_def closest_dist_def Let_def insort_key.simps)

text \<open>
  Claim C4 says that among equal minimal candidates the first in evaluation order
  (N,E), (N,W), (S,E), (S,W) decides the split. For \<open>N = S = W = (0, 0, 0)\<close> and
  \<open>E = (1, 0, 0)\<close> the minimum \<open>(0, 0, 0)\<close> is not the distance of (N,E) but is the distance of
  (N,W), so the specification's rule gives Left; the source tests the minimum against the
  distances of (N,E) and (S,W) first, finds it equal to that of (S,W), and gives Right.
\<close>

theorem split_tie_counterexample:
  "get_color_dist (0, 0, 0) (1, 0, 0) = (1, 0, 0)
   \<and> get_color_dist (0, 0, 0) (0, 0, 0) = (0, 0, 0)
   \<and> closest_dist (0, 0, 0) (1, 0, 0) (0, 0, 0) (0, 0, 0) = (0, 0, 0)
   \<and> spec_split (0, 0, 0) (1, 0, 0) (0, 0, 0) (0, 0, 0) = ''left''
   \<and> choose_split (0, 0, 0) (1, 0, 0) (0, 0, 0) (0, 0, 0) = Inr ''right''"
  by (simp add: spec_split_def choose_split_def closest_dist_def Let_def)

text \<open>
  Claim C4, amended. For every four region colors the split selector takes the
  lexicographic minimum of the four distances d(N,E), d(N,W), d(S,E), d(S,W) and always
  returns a split; the split is Right exactly when that minimum is the distance of (N,E)
  or of (S,W), and Left exactly when d(N,W) or d(S,E) is strictly smaller than both
  d(N,E) and d(S,W). A tie between a Right candidate and a Left candidate is therefore
  decided for Right, whatever the evaluation order.
\<close>

theorem split_selector_right_on_ties:
  "closest_dist n e s w =
     Min {get_color_dist n e, get_color_dist n w, get_color_dist s e, get_color_dist s w}
   \<and> (choose_split n e s w = Inr ''right'' \<or> choose_split n e s w = Inr ''left'')
   \<and> (choose_split n e s w = Inr ''right'') =
       (closest_dist n e s w = get_color_dist n e \<or> closest_dist n e s w = get_color_dist s w)
   \<and> (choose_split n e s w = Inr ''left'') =
       (min (get_color_dist n w) (get_color_dist s e)
          < min (get_color_dist n e) (get_color_dist s w))"
  unfolding closest_is_min
  unfolding choose_split_def Let_def closest_dist_def sort4_head
  by (auto simp: min_def)

theorem split_selector_right_on_ties_witness:
  "choose_split (10, 0, 0) (0, 0, 0) (0, 0, 0) (10, 0, 0) = Inr ''left''
   \<and> closest_dist (10, 0, 0) (0, 0, 0) (0, 0, 0) (10, 0, 0) = (0, 0, 0)
   \<and> choose_split (7, 7, 7) (7, 7, 7) (7, 7, 7) (7, 7, 7) = Inr ''right''"
  using split_selector_right_on_ties [of "(10, 0, 0)" "(0, 0, 0)" "(0, 0, 0)" "(10, 0, 0)"]
    split_selector_right_on_ties [of "(7, 7, 7)" "(7, 7, 7)" "(7, 7, 7)" "(7, 7, 7)"]
  by simp

subsection \<open>Cropping\<close>

lemma floor_multiple_le: "0 < (t::int) \<Longrightarrow> (w div t) * t \<le> w"
  by (metis mult.commute pos_mod_sign mult_div_mod_eq add_increasing2 order_refl)

lemma floor_multiple_greatest:
  assumes "0 < (t::int)" and "t dvd m" and "m \<le> w"
  shows "m \<le> (w div t) * t"
proof -
  have "m div t \<le> w div t"
    using assms(1,3) by (simp add: zdiv_mono1)
  then have "(m div t) * t \<le> (w div t) * t"
    using assms(1) by (simp add: mult_right_mono)
  then show ?thesis
    using assms(2) by simp
qed

lemma prep_image_ok: "t \<noteq> 0 \<Longrightarrow> \<exists>im'. prep_image im t = Inr im'"
  by (cases "im_size im") (simp add: prep_image_def py_div_def Let_def)

lemma prep_image_size:
  assumes "t \<noteq> 0" and "im_size im = (w, h)" and "prep_image im t = Inr im'"
  shows "im_size im' = ((w div t) * t, (h div t) * t)"
  using assms
  by (auto simp: prep_image_def py_div_def Let_def crop_def split: if_splits)

text \<open>
  Claim C6. For every image of size \<open>(w, h)\<close> and every positive \<open>tile_size\<close> (evenness is
  not needed), \<open>prep_image\<close> returns an image whose width and height are the largest
  multiples of \<open>tile_size\<close> that do not exceed \<open>w\<close> and \<open>h\<close>; every pixel of the result is the
  pixel of the input at the same coordinates, so only the right and bottom edges are cut
  off and nothing is rescaled; an image whose dimensions are already multiples of
  \<open>tile_size\<close> is returned as it is; and width 45 with \<open>tile_size\<close> 20 becomes width 40.
\<close>

theorem prep_image_crops_to_multiples:
  assumes "0 < tile_size" and "im_size im = (w, h)"
  shows "\<exists>im'. prep_image im tile_size = Inr im'
           \<and> im_size im' = ((w div tile_size) * tile_size, (h div tile_size) * tile_size)
           \<and> tile_size dvd fst (im_size im') \<and> tile_size dvd snd (im_size im')
           \<and> fst (im_size im') \<le> w \<and> snd (im_size im') \<le> h
           \<and> (\<forall>m. tile_size dvd m \<and> m \<le> w \<longrightarrow> m \<le> fst (im_size im'))
           \<and> (\<forall>m. tile_size dvd m \<and> m \<le> h \<longrightarrow> m \<le> snd (im_size im'))
           \<and> (\<forall>p. in_image im' p \<longrightarrow> in_image im p \<and> im_pixels im' p = im_pixels im p)
           \<and> (tile_size dvd w \<and> tile_size dvd h \<longrightarrow> im' = im)
           \<and> (w = 45 \<and> tile_size = 20 \<longrightarrow> fst (im_size im') = 40)"
proof -
  let ?nw = "(w div tile_size) * tile_size" and ?nh = "(h div tile_size) * tile_size"
  have le: "?nw \<le> w" "?nh \<le> h"
    using assms(1) by (simp_all add: floor_multiple_le)
  have greatest: "\<forall>m. tile_size dvd m \<and> m \<le> w \<longrightarrow> m \<le> ?nw"
    "\<forall>m. tile_size dvd m \<and> m \<le> h \<longrightarrow> m \<le> ?nh"
    using assms(1) by (simp_all add: floor_multiple_greatest)
  have example: "w = 45 \<and> tile_size = 20 \<longrightarrow> ?nw = 40"
    by simp
  show ?thesis
  proof (cases "?nw = w \<and> ?nh = h")
    case True
    then have "prep_image im tile_size = Inr im"
      using assms by (simp add: prep_image_def py_div_def)
    moreover have "im_size im = (?nw, ?nh)"
      using True assms(2) by simp
    ultimately show ?thesis
      using le greatest example by simp
  next
    case False
    let ?c = "crop (0, 0, ?nw, ?nh) im"
    have prep: "prep_image im tile_size = Inr ?c"
      using False assms by (auto simp add: prep_image_def py_div_def Let_def)
    have size: "im_size ?c = (?nw, ?nh)"
      by (simp add: crop_def)
    have pixels: "\<forall>p. in_image ?c p \<longrightarrow> in_image im p \<and> im_pixels ?c p = im_pixels im p"
      using le assms(2) by (auto simp: crop_def in_image_def)
    have same: "tile_size dvd w \<and> tile_size dvd h \<longrightarrow> ?c = im"
      using False by auto
    have dvd: "tile_size dvd fst (im_size ?c)" "tile_size dvd snd (im_size ?c)"
      by (simp_all add: size)
    have bound: "fst (im_size ?c) \<le> w" "snd (im_size ?c) \<le> h"
      using le by (simp_all add: size)
    have best: "\<forall>m. tile_size dvd m \<and> m \<le> w \<longrightarrow> m \<le> fst (im_size ?c)"
      "\<forall>m. tile_size dvd m \<and> m \<le> h \<longrightarrow> m \<le> snd (im_size ?c)"
      using greatest by (simp_all add: size)
    have example': "w = 45 \<and> tile_size = 20 \<longrightarrow> fst (im_size ?c) = 40"
      unfolding size fst_conv by (rule example)
    show ?thesis
      using prep size dvd bound best pixels same example' by blast
  qed
qed

theorem prep_image_crops_to_multiples_witness:
  "(0::int) < 20 \<and> im_size (gradient_image 45 40) = (45, 40)
   \<and> (\<exists>im'. prep_image (gradient_image 45 40) 20 = Inr im'
          \<and> im_size im' = (40, 40)
          \<and> in_image im' (39, 39) \<and> im_pixels im' (39, 39) = (39, 39, 0))"
proof -
  have h1: "(0::int) < 20" by simp
  have h2: "im_size (gradient_image 45 40) = (45, 40)" by (simp add: gradient_image_def)
  obtain im' where r: "prep_image (gradient_image 45 40) 20 = Inr im'"
      "im_size im' = ((45 div 20) * 20, (40 div 20) * 20)"
      "\<forall>p. in_image im' p \<longrightarrow> in_image (gradient_image 45 40) p
             \<and> im_pixels im' p = im_pixels (gradient_image 45 40) p"
    using prep_image_crops_to_multiples [OF h1 h2] by blast
  have sz: "im_size im' = (40, 40)" using r(2) by simp
  then have "in_image im' (39, 39)" by (simp add: in_image_def)
  with r(3) have "im_pixels im' (39, 39) = (39, 39, 0)"
    by (simp add: gradient_image_def)
  with r(1) sz h1 h2 \<open>in_image im' (39, 39)\<close> show ?thesis by blast
qed

subsection \<open>Which exceptions a run can raise\<close>

lemma pbind_error:
  assumes "fst (pbind m f s) = Inl e"
  obtains "fst (m s) = Inl e" | a s' where "m s = (Inr a, s')" and "fst (f a s') = Inl e"
  using assms by (cases "m s") (auto simp: pbind_def split: sum.splits)

lemma plift_error: "fst (plift r s) = Inl e \<Longrightarrow> r = Inl e"
  by (cases r) (auto simp: plift_def praise_def pret_def)

lemma plift_ok: "plift r s = (Inr a, s') \<Longrightarrow> r = Inr a"
  by (cases r) (auto simp: plift_def praise_def pret_def)

lemma getpixel_error: "fst (getpixel x y s) = Inl e \<Longrightarrow> e = IndexError"
  by (simp add: getpixel_def Let_def split: if_splits)

lemma read_pixels_error: "fst (read_pixels ps s) = Inl e \<Longrightarrow> e = IndexError"
proof (induction ps arbitrary: s e)
  case Nil
  then show ?case by (simp add: pret_def)
next
  case (Cons p ps)
  from Cons.prems
  have "fst (pbind (getpixel (fst p) (snd p))
               (\<lambda>c. pbind (read_pixels ps) (\<lambda>cs. pret (c # cs))) s) = Inl e"
    by simp
  then show ?case
  proof (rule pbind_error)
    assume "fst (getpixel (fst p) (snd p) s) = Inl e"
    then show ?thesis by (rule getpixel_error)
  next
    fix c s'
    assume "fst (pbind (read_pixels ps) (\<lambda>cs. pret (c # cs)) s') = Inl e"
    then show ?thesis
      by (rule pbind_error) (auto simp: pret_def dest: Cons.IH)
  qed
qed

lemma get_average_color_error: "get_average_color cs = Inl e \<Longrightarrow> e = TypeError \<and> cs = []"
  by (cases cs) (auto simp: get_average_color_def py_div_def Let_def split: prod.splits)

lemma plift_average_error: "fst (plift (get_average_color cs) s) = Inl e \<Longrightarrow> e = TypeError"
  by (auto dest!: plift_error get_average_color_error)

lemma triangle_colors_error:
  assumes "fst (triangle_colors x y t s) = Inl e"
  shows "e = IndexError \<or> e = TypeError"
  using assms unfolding triangle_colors_def
  by (elim pbind_error) (auto simp: pret_def dest: read_pixels_error plift_average_error)

lemma choose_split_error: "choose_split n e s w \<noteq> Inl err"
  using choose_split_cases [of n e s w] by auto

lemma draw_triangles_error:
  assumes "fst (draw_triangles x y t split tc bc draw s) = Inl e"
  shows "split \<noteq> ''right'' \<and> split \<noteq> ''left''"
  using assms
  by (auto simp: draw_triangles_def draw_triangle_def pbind_def praise_def Let_def
      split: if_splits)

lemma process_tile_error:
  assumes "fst (process_tile x y t draw s) = Inl e"
  shows "e = IndexError \<or> e = TypeError"
  using assms unfolding process_tile_def
proof (elim pbind_error)
  assume "fst (triangle_colors x y t s) = Inl e"
  then show ?thesis by (rule triangle_colors_error)
next
  fix a s'
  assume *: "fst ((case a of (n, e, s, w) \<Rightarrow> pbind (plift (choose_split n e s w)) (\<lambda>split.
     pbind (if split = ''right''
            then pbind (plift (get_average_color [n, e])) (\<lambda>top_color.
                 pbind (plift (get_average_color [s, w])) (\<lambda>bottom_color.
                 pret (top_color, bottom_color)))
            else pbind (plift (get_average_color [n, w])) (\<lambda>top_color.
                 pbind (plift (get_average_color [s, e])) (\<lambda>bottom_color.
                 pret (top_color, bottom_color))))
       (\<lambda>(top_color, bottom_color).
          draw_triangles x y t split top_color bottom_color draw))) s') = Inl e"
  obtain n ea so w where a: "a = (n, ea, so, w)" by (cases a)
  from * show ?thesis
    unfolding a prod.case
  proof (elim pbind_error)
    assume "fst (plift (choose_split n ea so w) s') = Inl e"
    then show ?thesis by (auto dest: plift_error simp: choose_split_error)
  next
    fix split s''
    assume "fst ((if split = ''right''
            then pbind (plift (get_average_color [n, ea])) (\<lambda>top_color.
                 pbind (plift (get_average_color [so, w])) (\<lambda>bottom_color.
                 pret (top_color, bottom_color)))
            else pbind (plift (get_average_color [n, w])) (\<lambda>top_color.
                 pbind (plift (get_average_color [so, ea])) (\<lambda>bottom_color.
                 pret (top_color, bottom_color)))) s'') = Inl e"
    then show ?thesis
      by (auto split: if_splits elim!: pbind_error dest!: plift_error get_average_color_error
          simp: pret_def)
  next
    fix split s'' cs s3
    assume "plift (choose_split n ea so w) s' = (Inr split, s'')"
    then have "split = ''right'' \<or> split = ''left''"
      using choose_split_cases [of n ea so w] by (auto dest: plift_ok)
    moreover assume "fst ((case cs of (top_color, bottom_color) \<Rightarrow>
          draw_triangles x y t split top_color bottom_color draw) s3) = Inl e"
    ultimately show ?thesis
      by (cases cs) (auto dest: draw_triangles_error)
  qed
qed

lemma process_tiles_error:
  "fst (process_tiles ps t draw s) = Inl e \<Longrightarrow> e = IndexError \<or> e = TypeError"
proof (induction ps arbitrary: s)
  case Nil
  then show ?case by (simp add: pret_def)
next
  case (Cons p ps)
  from Cons.prems show ?case
    by (simp, elim pbind_error) (auto dest: process_tile_error Cons.IH)
qed

lemma iter_tiles_ok: "t \<noteq> 0 \<Longrightarrow> \<exists>tiles. iter_tiles im t = Inr tiles"
  by (cases "im_size im") (simp add: iter_tiles_def xrange_step_def)

text \<open>
  A tile size that is odd or not an \<open>int\<close> fails the assertion, size 0 divides by zero in
  \<open>prep_image\<close>, and any other even size can only fail while a tile is processed, with
  IndexError or TypeError.
\<close>

lemma triangulize_error:
  assumes "fst (triangulize draw im t) = Inl e"
  shows "(e = AssertionError \<and> (\<not> isinstance_int t \<or> odd t)) \<or> (e = ZeroDivisionError \<and> t = 0)
           \<or> (isinstance_int t \<and> even t \<and> t \<noteq> 0 \<and> (e = IndexError \<or> e = TypeError))"
proof (cases "\<not> isinstance_int t \<or> odd t")
  case True
  then show ?thesis
    using assms by (auto simp: triangulize_def odd_iff_mod_2_eq_one)
next
  case valid: False
  then have check: "isinstance_int t \<and> t mod 2 = 0"
    by auto
  show ?thesis
  proof (cases "t = 0")
    case True
    then show ?thesis
      using assms check
      by (simp add: triangulize_def prep_image_def py_div_def split: prod.splits)
  next
    case False
    obtain im' where prep: "prep_image im t = Inr im'"
      using False prep_image_ok by blast
    obtain tiles where tiles: "iter_tiles im' t = Inr tiles"
      using False iter_tiles_ok by blast
    obtain r s where run: "process_tiles tiles t draw \<lparr>canvas = im', events = []\<rparr> = (r, s)"
      by (cases "process_tiles tiles t draw \<lparr>canvas = im', events = []\<rparr>")
    have "r = Inl e"
      using assms check prep tiles run by (auto simp: triangulize_def split: sum.splits)
    then have "e = IndexError \<or> e = TypeError"
      using process_tiles_error [of tiles t draw "\<lparr>canvas = im', events = []\<rparr>" e] run by simp
    then show ?thesis
      using valid False by simp
  qed
qed

subsection \<open>Tile sizes that are not positive\<close>

text \<open>
  For a negative tile size every region loop is empty, so a tile, if one is reached, fails
  in the first average without reading a pixel or drawing a polygon.
\<close>

lemma negative_regions_empty:
  assumes "t < 0"
  shows "north_coords x y t = []" and "south_coords x y t = []"
    and "east_coords x y t = []" and "west_coords x y t = []"
proof -
  have "t div 2 < 0" and "t \<le> t div 2"
    using assms by presburger+
  then show "north_coords x y t = []" and "south_coords x y t = []"
    and "east_coords x y t = []" and "west_coords x y t = []"
    by (simp_all add: north_coords_def south_coords_def east_coords_def west_coords_def
        xrange_def Let_def)
qed

lemma negative_process_tile:
  assumes "t < 0"
  shows "process_tile x y t draw s = (Inl TypeError, s)"
  by (simp add: process_tile_def triangle_colors_def negative_regions_empty [OF assms]
      pbind_def pret_def praise_def plift_def get_average_color_def)

lemma negative_process_tiles:
  assumes "t < 0"
  shows "snd (process_tiles ps t draw s) = s"
  by (cases ps) (simp_all add: pret_def pbind_def negative_process_tile [OF assms])

lemma nonpositive_no_trace:
  assumes "t \<le> 0"
  shows "snd (triangulize draw im t) = []"
proof (cases "isinstance_int t \<and> t mod 2 = 0")
  case False
  then show ?thesis by (simp add: triangulize_def)
next
  case check: True
  show ?thesis
  proof (cases "t = 0")
    case True
    then show ?thesis
      using check by (simp add: triangulize_def prep_image_def py_div_def split: prod.splits)
  next
    case False
    with assms have neg: "t < 0" by simp
    obtain im' where prep: "prep_image im t = Inr im'"
      using False prep_image_ok by blast
    obtain tiles where tiles: "iter_tiles im' t = Inr tiles"
      using False iter_tiles_ok by blast
    obtain r s where run: "process_tiles tiles t draw \<lparr>canvas = im', events = []\<rparr> = (r, s)"
      by (cases "process_tiles tiles t draw \<lparr>canvas = im', events = []\<rparr>")
    have "s = \<lparr>canvas = im', events = []\<rparr>"
      using negative_process_tiles [OF neg, of tiles draw "\<lparr>canvas = im', events = []\<rparr>"] run
      by simp
    then show ?thesis
      using check prep tiles run by (cases r) (simp_all add: triangulize_def)
  qed
qed

subsection \<open>Validation of the tile size\<close>

text \<open>
  Claim C3 says that every tile size that is not positive or not even is rejected with a
  configuration error. The assertion of \<open>triangulize\<close> tests the type and the evenness
  only: with \<open>tile_size = -2\<close> a 2 by 2 image passes the assertion, is left as it is by
  \<open>prep_image\<close> (\<open>2 / -2 * -2 = 2\<close>), has no tile origins (\<open>xrange(0, 2, -2)\<close> is empty), and
  is returned without any error.
\<close>

theorem negative_tile_size_counterexample:
  "triangulize (\<lambda>pts fill i. i) (solid_image 2 2 (255, 0, 0)) (- 2)
     = (Inr (solid_image 2 2 (255, 0, 0)), [])"
  by (simp add: triangulize_def solid_image_def prep_image_def py_div_def iter_tiles_def
      xrange_step_def pret_def isinstance_int_def sys_maxint_def)

text \<open>
  Claim C3, amended. \<open>triangulize\<close> validates that \<open>tile_size\<close> is an \<open>int\<close> and even, and
  nothing else about it: the call fails with the assertion (invalid-argument) error
  exactly when \<open>tile_size\<close> is odd or is not an \<open>int\<close> (a \<open>long\<close> beyond \<open>sys.maxint\<close>), and
  then immediately, with no pixel read and no polygon drawn. A non-positive even \<open>int\<close> is
  not rejected by the validation; still, for every \<open>tile_size\<close> that is not positive the
  call ends with no pixel read and no polygon drawn.
\<close>

theorem assertion_error_iff_odd_or_long:
  "(fst (triangulize draw im tile_size) = Inl AssertionError)
     = (\<not> isinstance_int tile_size \<or> odd tile_size)
   \<and> (\<not> isinstance_int tile_size \<or> odd tile_size
        \<longrightarrow> triangulize draw im tile_size = (Inl AssertionError, []))
   \<and> (tile_size \<le> 0 \<longrightarrow> snd (triangulize draw im tile_size) = [])"
proof -
  have rejected: "triangulize draw im tile_size = (Inl AssertionError, [])"
    if "\<not> isinstance_int tile_size \<or> odd tile_size"
    using that by (auto simp: triangulize_def odd_iff_mod_2_eq_one)
  have only: "\<not> isinstance_int tile_size \<or> odd tile_size"
    if "fst (triangulize draw im tile_size) = Inl AssertionError"
    using triangulize_error [OF that] by auto
  have quiet: "snd (triangulize draw im tile_size) = []" if "tile_size \<le> 0"
    using that by (rule nonpositive_no_trace)
  from rejected only quiet show ?thesis
    by (intro conjI impI iffI) simp_all
qed

theorem assertion_error_iff_odd_or_long_witness:
  "odd (5::int)
   \<and> triangulize (\<lambda>pts fill i. i) (gradient_image 10 10) 5 = (Inl AssertionError, [])
   \<and> \<not> isinstance_int (2 ^ 63)
   \<and> triangulize (\<lambda>pts fill i. i) (gradient_image 10 10) (2 ^ 63) = (Inl AssertionError, [])
   \<and> isinstance_int (- 4) \<and> even (- 4 :: int) \<and> (- 4 :: int) \<le> 0
   \<and> fst (triangulize (\<lambda>pts fill i. i) (gradient_image 10 10) (- 4)) \<noteq> Inl AssertionError
   \<and> snd (triangulize (\<lambda>pts fill i. i) (gradient_image 10 10) (- 4)) = []"
  using assertion_error_iff_odd_or_long [of "\<lambda>pts fill i. i" "gradient_image 10 10" 5]
    assertion_error_iff_odd_or_long [of "\<lambda>pts fill i. i" "gradient_image 10 10" "2 ^ 63"]
    assertion_error_iff_odd_or_long [of "\<lambda>pts fill i. i" "gradient_image 10 10" "- 4"]
  by (simp add: isinstance_int_def sys_maxint_def)

text \<open>
  Claim C7. For \<open>tile_size = 3\<close>, and for every odd \<open>tile_size\<close>, \<open>triangulize\<close> fails with the
  assertion error, and the trace of the run is empty: no pixel of the image was read and
  no polygon was drawn.
\<close>

theorem odd_tile_size_rejected:
  "odd tile_size \<Longrightarrow> triangulize draw im tile_size = (Inl AssertionError, [])"
  by (simp add: triangulize_def odd_iff_mod_2_eq_one)

theorem odd_tile_size_rejected_witness:
  "odd (3::int)
   \<and> triangulize (\<lambda>pts fill i. i) (solid_image 6 6 (255, 0, 0)) 3 = (Inl AssertionError, [])"
  using odd_tile_size_rejected [of 3 "\<lambda>pts fill i. i" "solid_image 6 6 (255, 0, 0)"] by simp

text \<open>
  Claim C9. For \<open>tile_size = 0\<close> the assertion, type test and evenness test, passes, \<open>prep_image\<close> raises
  ZeroDivisionError, and \<open>triangulize\<close> fails with that error, not with the assertion
  error, with an empty trace: no tile was processed, no pixel read, no polygon drawn.
\<close>

theorem tile_size_zero_divides_by_zero:
  "isinstance_int 0 \<and> (0::int) mod 2 = 0
   \<and> prep_image im 0 = Inl ZeroDivisionError
   \<and> triangulize draw im 0 = (Inl ZeroDivisionError, [])"
  by (simp add: triangulize_def prep_image_def py_div_def isinstance_int_def sys_maxint_def
      split: prod.splits)

subsection \<open>Images smaller than a tile\<close>

lemma xrange_step_empty: "0 < step \<Longrightarrow> stop \<le> 0 \<Longrightarrow> xrange_step 0 stop step = Inr []"
  by (simp add: xrange_step_def pos_imp_zdiv_neg_iff)

lemma concat_map_empty: "concat (map (\<lambda>y. map f []) ys) = []"
  by (induction ys) simp_all

lemma iter_tiles_empty:
  assumes "0 < tile_size" and "fst (im_size im) = 0 \<or> snd (im_size im) = 0"
      and "0 \<le> fst (im_size im)" and "0 \<le> snd (im_size im)"
  shows "iter_tiles im tile_size = Inr []"
proof -
  obtain w h where wh: "im_size im = (w, h)" by (cases "im_size im")
  obtain ys where ys: "xrange_step 0 h tile_size = Inr ys"
    using assms(1) by (simp add: xrange_step_def)
  obtain xs where xs: "xrange_step 0 w tile_size = Inr xs"
    using assms(1) by (simp add: xrange_step_def)
  have "xs = [] \<or> ys = []"
    using assms wh xs ys xrange_step_empty [of tile_size 0] by auto
  then show ?thesis
    using wh xs ys by (auto simp: iter_tiles_def concat_map_empty)
qed

text \<open>
  Claim C10. For every image of size \<open>(w, h)\<close> with \<open>w < tile_size\<close> or \<open>h < tile_size\<close>, and
  every valid \<open>tile_size\<close>, a positive even \<open>int\<close>, \<open>prep_image\<close> returns an image in which that dimension is
  0, \<open>iter_tiles\<close> yields no tile origin for it, and \<open>triangulize\<close> returns that image without
  an error and with an empty trace: no pixel read, no polygon drawn.
\<close>

theorem small_image_has_no_tiles:
  assumes "0 < tile_size" and "even tile_size" and "im_size im = (w, h)"
      and "0 \<le> w" and "0 \<le> h" and "w < tile_size \<or> h < tile_size"
      and "isinstance_int tile_size"
  shows "\<exists>im'. prep_image im tile_size = Inr im'
           \<and> im_size im' = (if w < tile_size then 0 else (w div tile_size) * tile_size,
                            if h < tile_size then 0 else (h div tile_size) * tile_size)
           \<and> iter_tiles im' tile_size = Inr []
           \<and> triangulize draw im tile_size = (Inr im', [])"
proof -
  obtain im' where prep: "prep_image im tile_size = Inr im'"
    using assms(1) prep_image_ok [of tile_size im] by auto
  have size: "im_size im' = ((w div tile_size) * tile_size, (h div tile_size) * tile_size)"
    using assms(1) prep_image_size [OF _ assms(3) prep] by simp
  have size': "im_size im' = (if w < tile_size then 0 else (w div tile_size) * tile_size,
                            if h < tile_size then 0 else (h div tile_size) * tile_size)"
    using size assms(4,5) by simp
  have nonneg: "0 \<le> fst (im_size im')" "0 \<le> snd (im_size im')"
    using size assms(1,4,5) by (simp_all add: pos_imp_zdiv_nonneg_iff)
  have "fst (im_size im') = 0 \<or> snd (im_size im') = 0"
    using size' assms(6) by auto
  then have tiles: "iter_tiles im' tile_size = Inr []"
    using iter_tiles_empty [OF assms(1) _ nonneg] by simp
  have "triangulize draw im tile_size = (Inr im', [])"
    using assms(2,7) prep tiles by (simp add: triangulize_def pret_def)
  with prep size' tiles show ?thesis by blast
qed

theorem small_image_has_no_tiles_witness:
  "(0::int) < 4 \<and> even (4::int) \<and> im_size (gradient_image 3 8) = (3, 8)
   \<and> (0::int) \<le> 3 \<and> (0::int) \<le> 8 \<and> ((3::int) < 4 \<or> (8::int) < 4)
   \<and> isinstance_int 4
   \<and> (\<exists>im'. prep_image (gradient_image 3 8) 4 = Inr im'
          \<and> im_size im' = (0, 8)
          \<and> iter_tiles im' 4 = Inr []
          \<and> triangulize (\<lambda>pts fill i. i) (gradient_image 3 8) 4 = (Inr im', []))"
proof -
  have size: "im_size (gradient_image 3 8) = (3, 8)"
    by (simp add: gradient_image_def)
  have int4: "isinstance_int 4"
    by (simp add: isinstance_int_def sys_maxint_def)
  show ?thesis
    using small_image_has_no_tiles [of 4 "gradient_image 3 8" 3 8 "\<lambda>pts fill i. i"] size int4
    by simp
qed

end
